theory Spec2Isabelle
  imports Main
begin

section \<open>Python values, exceptions and effects\<close>

text \<open>
  The agents are Python programs. A Python string is held as the list of the bytes of
  its UTF-8 encoding, which for ASCII text is the text itself; the pictographs that
  open some console messages are written as these bytes. Concatenation, splitting at an
  underscore, and the search for and the replacement of an ASCII pattern act on the
  encoding as they act on the code points. Where a string is split at whitespace and cut
  by position, in \<open>run_command\<close>, it is the list of its code points (\<open>unicode\<close>).
  JSON documents and keyword arguments are values of \<open>pyval\<close>; a dictionary is an
  association list with string keys, in insertion order (floating-point numbers do not
  occur in the configuration files and are left out).
\<close>

type_synonym unicode = "nat list"

datatype pyval =
    PNone
  | PBool bool
  | PInt int
  | PStr string
  | PList "pyval list"
  | PDict "(string \<times> pyval) list"

datatype exn_class = IndexError | KeyError | TypeError | AttributeError | FileNotFoundError | OtherException

text \<open>
  A raised exception: its class and the text that \<open>str(e)\<close> gives. All of them derive
  from \<open>Exception\<close>, the class that the handlers of the agents catch.
\<close>

datatype exn = Raised exn_class string

fun str_exn :: "exn \<Rightarrow> string" where
  "str_exn (Raised c m) = m"

text \<open>
  A tool descriptor as \<open>list_tools\<close> returns it (its input schema plays no part here),
  and a content element of a call result, read through its attribute \<open>text\<close>.
\<close>

record tool =
  name :: string
  description :: string

datatype content = TextContent (content_text: string)

type_synonym headers = "(string \<times> string) list"

text \<open>
  What a function does besides returning: console output, the steps of a remote
  session, and the command lines passed to \<open>subprocess.run\<close> with \<open>shell=True\<close>.
\<close>

datatype event =
    Print string
  | Connect pyval headers
  | ListTools pyval
  | CallTool pyval string pyval
  | Close pyval
  | Subprocess unicode

text \<open>
  A computation yields the events it performed, in order, and either the exception it
  raised (\<open>Inl\<close>) or its return value (\<open>Inr\<close>).
\<close>

type_synonym 'a io = "event list \<times> (exn + 'a)"

definition return_io :: "'a \<Rightarrow> 'a io" where
  "return_io x = ([], Inr x)"

definition raise_io :: "exn \<Rightarrow> 'a io" where
  "raise_io e = ([], Inl e)"

definition bind_io :: "'a io \<Rightarrow> ('a \<Rightarrow> 'b io) \<Rightarrow> 'b io" where
  "bind_io m f =
     (case m of
        (l, Inl e) \<Rightarrow> (l, Inl e)
      | (l, Inr x) \<Rightarrow> (case f x of (l', r) \<Rightarrow> (l @ l', r)))"

text \<open>\<open>try: m except Exception as e: h e\<close>\<close>

definition try_except :: "'a io \<Rightarrow> (exn \<Rightarrow> 'a io) \<Rightarrow> 'a io" where
  "try_except m h =
     (case m of
        (l, Inl e) \<Rightarrow> (case h e of (l', r) \<Rightarrow> (l @ l', r))
      | (l, Inr x) \<Rightarrow> (l, Inr x))"

definition print :: "string \<Rightarrow> unit io" where
  "print s = ([Print s], Inr ())"

definition lift_io :: "exn + 'a \<Rightarrow> 'a io" where
  "lift_io r = ([], r)"

subsection \<open>Strings and lists\<close>

text \<open>\<open>s.split(sep)\<close> for a one-character separator.\<close>

fun split_aux :: "char \<Rightarrow> string \<Rightarrow> string \<Rightarrow> string list" where
  "split_aux sep cur [] = [cur]"
| "split_aux sep cur (c # cs) =
     (if c = sep then cur # split_aux sep [] cs else split_aux sep (cur @ [c]) cs)"

definition py_split :: "char \<Rightarrow> string \<Rightarrow> string list" where
  "py_split sep s = split_aux sep [] s"

text \<open>\<open>sep.join(xs)\<close>\<close>

fun py_join :: "'a list \<Rightarrow> 'a list list \<Rightarrow> 'a list" where
  "py_join sep [] = []"
| "py_join sep [x] = x"
| "py_join sep (x # y # ys) = x @ sep @ py_join sep (y # ys)"

text \<open>The code points of an ASCII literal.\<close>

definition ascii :: "string \<Rightarrow> unicode" where
  "ascii s = map of_char s"

text \<open>
  The code points for which \<open>str.isspace\<close> holds, which are the ones at which
  \<open>str.split()\<close> splits: the ASCII controls U+0009 to U+000D and U+001C to U+001F,
  the space, U+0085, U+00A0, U+1680, U+2000 to U+200A, U+2028, U+2029, U+202F, U+205F
  and U+3000.
\<close>

definition isspace :: "nat \<Rightarrow> bool" where
  "isspace c = (c \<in> set [0x09, 0x0A, 0x0B, 0x0C, 0x0D, 0x1C, 0x1D, 0x1E, 0x1F, 0x20,
                          0x85, 0xA0, 0x1680,
                          0x2000, 0x2001, 0x2002, 0x2003, 0x2004, 0x2005, 0x2006, 0x2007,
                          0x2008, 0x2009, 0x200A,
                          0x2028, 0x2029, 0x202F, 0x205F, 0x3000])"

text \<open>\<open>s.split()\<close>: the maximal runs of non-whitespace code points.\<close>

fun split_ws_aux :: "unicode \<Rightarrow> unicode \<Rightarrow> unicode list" where
  "split_ws_aux cur [] = (if cur = [] then [] else [cur])"
| "split_ws_aux cur (c # cs) =
     (if isspace c
      then (if cur = [] then split_ws_aux [] cs else cur # split_ws_aux [] cs)
      else split_ws_aux (cur @ [c]) cs)"

definition py_split_ws :: "unicode \<Rightarrow> unicode list" where
  "py_split_ws s = split_ws_aux [] s"

text \<open>\<open>xs[i]\<close> for a non-negative index.\<close>

definition py_index :: "'a list \<Rightarrow> nat \<Rightarrow> exn + 'a" where
  "py_index xs i =
     (if i < length xs then Inr (xs ! i)
      else Inl (Raised IndexError ''list index out of range''))"

subsection \<open>The environment\<close>

text \<open>
  Everything outside the process is an oracle. A remote session is addressed by the URL
  (or, for a subprocess server, the command line) it is opened with: \<open>opens\<close> is the
  outcome of entering the transport and the client session and of \<open>initialize\<close>,
  \<open>closes\<close> the outcome of leaving them. \<open>files\<close> gives, for a path that exists, the
  outcome of opening it and parsing it as JSON. \<open>shell\<close> gives the outcome of
  \<open>subprocess.run\<close> on a command line: the decoded standard output and standard error,
  or (\<open>Inl\<close>) the text \<open>str(e)\<close> of the exception it raises, a timeout among them. An
  oracle answers every request, and the same request in the same way; how long an
  answer takes is not part of the model.
\<close>

record world =
  opens :: "pyval \<Rightarrow> headers \<Rightarrow> exn option"
  list_tools :: "pyval \<Rightarrow> exn + tool list"
  call_tool :: "pyval \<Rightarrow> string \<Rightarrow> pyval \<Rightarrow> exn + content list"
  closes :: "pyval \<Rightarrow> exn option"
  files :: "string \<Rightarrow> (exn + pyval) option"
  shell :: "unicode \<Rightarrow> unicode + (unicode \<times> unicode)"

subsection \<open>Values\<close>

text \<open>Truth value of an object, as \<open>if x\<close> and \<open>not x\<close> take it.\<close>

fun truthy :: "pyval \<Rightarrow> bool" where
  "truthy PNone = False"
| "truthy (PBool b) = b"
| "truthy (PInt i) = (i \<noteq> 0)"
| "truthy (PStr s) = (s \<noteq> [])"
| "truthy (PList xs) = (xs \<noteq> [])"
| "truthy (PDict kvs) = (kvs \<noteq> [])"

text \<open>\<open>x[key]\<close> for a string key: only a dictionary holding the key answers.\<close>

fun py_getitem :: "pyval \<Rightarrow> string \<Rightarrow> exn + pyval" where
  "py_getitem (PDict kvs) k =
     (case map_of kvs k of
        Some v \<Rightarrow> Inr v
      | None \<Rightarrow> Inl (Raised KeyError ([CHR 0x27] @ k @ [CHR 0x27])))"
| "py_getitem (PList xs) k =
     Inl (Raised TypeError ''list indices must be integers or slices, not str'')"
| "py_getitem (PStr s) k =
     Inl (Raised TypeError ''string indices must be integers'')"
| "py_getitem v k = Inl (Raised TypeError ''object is not subscriptable'')"

text \<open>\<open>d.get(key, default)\<close>\<close>

definition dict_get :: "(string \<times> pyval) list \<Rightarrow> string \<Rightarrow> pyval \<Rightarrow> pyval" where
  "dict_get d k dflt = (case map_of d k of Some v \<Rightarrow> v | None \<Rightarrow> dflt)"

text \<open>Decimal digits of a number, for \<open>len(...)\<close> inside a formatted string.\<close>

fun str_nat :: "nat \<Rightarrow> string" where
  "str_nat n =
     (if n < 10 then [''0123456789'' ! n]
      else str_nat (n div 10) @ [''0123456789'' ! (n mod 10)])"

declare str_nat.simps [simp del]

definition str_int :: "int \<Rightarrow> string" where
  "str_int i = (if i < 0 then ''-'' @ str_nat (nat (- i)) else str_nat (nat i))"

text \<open>
  \<open>repr(v)\<close> and \<open>str(v)\<close>, which a formatted string applies to the values it embeds.
  A string is quoted without escapes, which is exact for the identifiers, paths, URLs
  and tokens that occur here.
\<close>

fun py_repr :: "pyval \<Rightarrow> string" where
  "py_repr PNone = ''None''"
| "py_repr (PBool b) = (if b then ''True'' else ''False'')"
| "py_repr (PInt i) = str_int i"
| "py_repr (PStr s) = [CHR 0x27] @ s @ [CHR 0x27]"
| "py_repr (PList xs) = ''['' @ py_join '', '' (map py_repr xs) @ '']''"
| "py_repr (PDict kvs) =
     ''{'' @ py_join '', ''
              (map (\<lambda>kv. [CHR 0x27] @ fst kv @ [CHR 0x27] @ '': '' @ py_repr (snd kv)) kvs)
      @ ''}''"

fun py_str :: "pyval \<Rightarrow> string" where
  "py_str (PStr s) = s"
| "py_str v = py_repr v"

text \<open>\<open>sub in s\<close> and \<open>s.replace(old, new)\<close> on strings.\<close>

definition startswith :: "string \<Rightarrow> string \<Rightarrow> bool" where
  "startswith s p = (take (length p) s = p)"

fun py_in :: "string \<Rightarrow> string \<Rightarrow> bool" where
  "py_in sub [] = (sub = [])"
| "py_in sub (c # cs) = (startswith (c # cs) sub \<or> py_in sub cs)"

function py_replace :: "string \<Rightarrow> string \<Rightarrow> string \<Rightarrow> string" where
  "py_replace old new s =
     (if old = [] then new @ concat (map (\<lambda>c. c # new) s)
      else if s = [] then []
      else if startswith s old then new @ py_replace old new (drop (length old) s)
      else hd s # py_replace old new (tl s))"
  by pat_completeness auto
termination
  by (relation "measure (\<lambda>(old, new, s). length s)") auto

declare py_replace.simps [simp del]

subsection \<open>Files\<close>

text \<open>\<open>os.path.exists(p)\<close>, and \<open>with open(p, 'r') as f: json.load(f)\<close>.\<close>

definition path_exists :: "world \<Rightarrow> string \<Rightarrow> bool" where
  "path_exists w p = (files w p \<noteq> None)"

definition open_json :: "world \<Rightarrow> string \<Rightarrow> pyval io" where
  "open_json w p =
     (case files w p of
        None \<Rightarrow> raise_io (Raised FileNotFoundError
                  (''[Errno 2] No such file or directory: '' @ py_repr (PStr p)))
      | Some r \<Rightarrow> lift_io r)"

subsection \<open>Sessions\<close>

text \<open>
  \<open>async with client(url, headers) as (read, write, _):
      async with ClientSession(read, write) as session:
          await session.initialize(); body\<close>.
  Leaving the two \<open>with\<close> blocks runs on every path out of the body, and an exception
  raised on the way out replaces the body's outcome.
\<close>

definition with_session :: "world \<Rightarrow> pyval \<Rightarrow> headers \<Rightarrow> 'a io \<Rightarrow> 'a io" where
  "with_session w url hdrs body =
     (case opens w url hdrs of
        Some e \<Rightarrow> ([Connect url hdrs], Inl e)
      | None \<Rightarrow>
          (case body of (l, r) \<Rightarrow>
             ([Connect url hdrs] @ l @ [Close url],
              (case closes w url of Some e \<Rightarrow> Inl e | None \<Rightarrow> r))))"

definition session_list_tools :: "world \<Rightarrow> pyval \<Rightarrow> tool list io" where
  "session_list_tools w url = ([ListTools url], list_tools w url)"

definition session_call_tool :: "world \<Rightarrow> pyval \<Rightarrow> string \<Rightarrow> pyval \<Rightarrow> content list io" where
  "session_call_tool w url tool_name arguments =
     ([CallTool url tool_name arguments], call_tool w url tool_name arguments)"

text \<open>
  The loop \<open>for tool in tools: tool.name = f"{server_name}_{tool.name}"; acc.append(tool)\<close>
\<close>

fun prefix_tools :: "string \<Rightarrow> tool list \<Rightarrow> tool list \<Rightarrow> tool list" where
  "prefix_tools server_name [] acc = acc"
| "prefix_tools server_name (t # ts) acc =
     prefix_tools server_name ts (acc @ [t\<lparr>name := server_name @ ''_'' @ name t\<rparr>])"

section \<open>agent\_with\_aws\_mcp.py\<close>

definition AWS_MCP_SERVERS :: "(string \<times> pyval) list" where
  "AWS_MCP_SERVERS =
     [(''aws_diagram'', PDict [(''url'', PStr ''http://localhost:8000/mcp''),
         (''description'', PStr ''AWS architecture diagram generation'')]),
      (''aws_eks'', PDict [(''url'', PStr ''http://localhost:8001/mcp''),
         (''description'', PStr ''EKS cluster management and operations'')]),
      (''aws_terraform'', PDict [(''url'', PStr ''http://localhost:8002/mcp''),
         (''description'', PStr ''Terraform configuration generation and management'')]),
      (''aws_cost'', PDict [(''url'', PStr ''http://localhost:8003/mcp''),
         (''description'', PStr ''AWS cost analysis and optimization'')]),
      (''github'', PDict [(''url'', PStr ''http://localhost:8004/mcp''),
         (''description'', PStr ''GitHub repository and operations management'')])]"

definition check_mark :: string where
  "check_mark = [CHR 0xE2, CHR 0x9C, CHR 0x85]"

definition cross_mark :: string where
  "cross_mark = [CHR 0xE2, CHR 0x9D, CHR 0x8C]"

definition connect_to_mcp_server :: "world \<Rightarrow> string \<Rightarrow> pyval \<Rightarrow> tool list io" where
  "connect_to_mcp_server w server_name config =
     try_except
       (bind_io (lift_io (py_getitem config ''url'')) (\<lambda>url.
          with_session w url []
            (bind_io (session_list_tools w url) (\<lambda>tools.
               let prefixed_tools = prefix_tools server_name tools [] in
               bind_io (print (check_mark @ '' Connected to '' @ server_name @ '': ''
                                 @ str_nat (length prefixed_tools) @ '' tools''))
                 (\<lambda>_. return_io prefixed_tools)))))
       (\<lambda>e. bind_io (print (cross_mark @ '' Failed to connect to '' @ server_name @ '': ''
                               @ str_exn e))
               (\<lambda>_. return_io []))"

text \<open>
  \<open>get_all_aws_mcp_tools\<close> reads the module's table \<open>AWS_MCP_SERVERS\<close>; here the table
  is a parameter, its entries in the order \<open>items()\<close> yields them.
\<close>

fun get_all_aws_mcp_tools_loop ::
  "world \<Rightarrow> (string \<times> pyval) list \<Rightarrow> tool list \<Rightarrow> tool list io" where
  "get_all_aws_mcp_tools_loop w [] all_tools = return_io all_tools"
| "get_all_aws_mcp_tools_loop w ((server_name, config) # rest) all_tools =
     bind_io (connect_to_mcp_server w server_name config) (\<lambda>tools.
       get_all_aws_mcp_tools_loop w rest (all_tools @ tools))"

definition get_all_aws_mcp_tools :: "world \<Rightarrow> (string \<times> pyval) list \<Rightarrow> tool list io" where
  "get_all_aws_mcp_tools w servers = get_all_aws_mcp_tools_loop w servers []"

text \<open>\<open>result.content[0].text if result.content else empty_marker\<close>\<close>

definition first_text :: "content list \<Rightarrow> string \<Rightarrow> string" where
  "first_text cs empty_marker = (if cs \<noteq> [] then content_text (hd cs) else empty_marker)"

definition execute_aws_mcp_tool ::
  "world \<Rightarrow> (string \<times> pyval) list \<Rightarrow> string \<Rightarrow> pyval \<Rightarrow> string io" where
  "execute_aws_mcp_tool w servers tool_name arguments =
     bind_io (lift_io (py_index (py_split CHR ''_'' tool_name) 0)) (\<lambda>seg0.
     bind_io (lift_io (py_index (py_split CHR ''_'' tool_name) 1)) (\<lambda>seg1.
       let server_name = seg0 @ ''_'' @ seg1;
           original_tool_name = py_join ''_'' (drop 2 (py_split CHR ''_'' tool_name));
           config = map_of servers server_name
       in if config = None \<or> \<not> truthy (the config)
          then return_io (''Server '' @ server_name @ '' not found'')
          else try_except
                 (bind_io (lift_io (py_getitem (the config) ''url'')) (\<lambda>url.
                    with_session w url []
                      (bind_io (session_call_tool w url original_tool_name arguments)
                         (\<lambda>cs. return_io (first_text cs ''No result'')))))
                 (\<lambda>e. return_io (''Tool execution error: '' @ str_exn e))))"

section \<open>agent\_with\_external\_mcp.py\<close>

text \<open>
  The table \<open>MCP_SERVERS\<close>; its last entry takes the values of the environment
  variables \<open>GATEWAY_URL\<close> and \<open>GATEWAY_TOKEN\<close>, each a string or \<open>None\<close>.
\<close>

definition MCP_SERVERS :: "pyval \<Rightarrow> pyval \<Rightarrow> (string \<times> pyval) list" where
  "MCP_SERVERS gateway_url gateway_token =
     [(''filesystem'', PDict [(''url'', PStr ''http://localhost:8001/mcp''), (''auth'', PNone)]),
      (''database'', PDict [(''url'', PStr ''http://localhost:8002/mcp''), (''auth'', PNone)]),
      (''agentcore_gateway'', PDict [(''url'', gateway_url), (''auth'', gateway_token)])]"

text \<open>
  \<open>headers = {}\<close>, then
  \<open>if config["auth"]: headers["Authorization"] = f"Bearer {config['auth']}"\<close>
\<close>

definition auth_headers :: "pyval \<Rightarrow> headers" where
  "auth_headers auth =
     (if truthy auth then [(''Authorization'', ''Bearer '' @ py_str auth)] else [])"

text \<open>
  A session whose body updates a local variable: what the body has stored stays stored
  when the body, or leaving the session, raises.
\<close>

definition with_session_state ::
  "world \<Rightarrow> pyval \<Rightarrow> headers \<Rightarrow> 's \<Rightarrow> (event list \<times> 's \<times> (exn + 'a))
     \<Rightarrow> event list \<times> 's \<times> (exn + 'a)" where
  "with_session_state w url hdrs s0 body =
     (case opens w url hdrs of
        Some e \<Rightarrow> ([Connect url hdrs], s0, Inl e)
      | None \<Rightarrow>
          (case body of (l, s, r) \<Rightarrow>
             ([Connect url hdrs] @ l @ [Close url], s,
              (case closes w url of Some e \<Rightarrow> Inl e | None \<Rightarrow> r))))"

text \<open>The \<open>try\<close> block of the discovery loop, threading \<open>all_tools\<close>.\<close>

definition get_mcp_tools_try ::
  "world \<Rightarrow> string \<Rightarrow> pyval \<Rightarrow> tool list \<Rightarrow> event list \<times> tool list \<times> (exn + unit)" where
  "get_mcp_tools_try w server_name config all_tools =
     (case py_getitem config ''auth'' of
        Inl e \<Rightarrow> ([], all_tools, Inl e)
      | Inr auth \<Rightarrow>
          (case py_getitem config ''url'' of
             Inl e \<Rightarrow> ([], all_tools, Inl e)
           | Inr url \<Rightarrow>
               with_session_state w url (auth_headers auth) all_tools
                 (case list_tools w url of
                    Inl e \<Rightarrow> ([ListTools url], all_tools, Inl e)
                  | Inr tools \<Rightarrow>
                      ([ListTools url,
                        Print (''Connected to '' @ server_name @ '': ''
                                 @ str_nat (length tools) @ '' tools'')],
                       prefix_tools server_name tools all_tools, Inr ()))))"

fun get_mcp_tools_loop ::
  "world \<Rightarrow> (string \<times> pyval) list \<Rightarrow> tool list \<Rightarrow> tool list io" where
  "get_mcp_tools_loop w [] all_tools = return_io all_tools"
| "get_mcp_tools_loop w ((server_name, config) # rest) all_tools =
     bind_io (lift_io (py_getitem config ''url'')) (\<lambda>url.
       if \<not> truthy url then get_mcp_tools_loop w rest all_tools
       else (case get_mcp_tools_try w server_name config all_tools of
               (l, all_tools', Inl e) \<Rightarrow>
                 bind_io (l @ [Print (''Failed to connect to '' @ server_name @ '': ''
                                        @ str_exn e)], Inr ())
                   (\<lambda>_. get_mcp_tools_loop w rest all_tools')
             | (l, all_tools', Inr _) \<Rightarrow>
                 bind_io (l, Inr ()) (\<lambda>_. get_mcp_tools_loop w rest all_tools')))"

definition get_mcp_tools_from_servers ::
  "world \<Rightarrow> (string \<times> pyval) list \<Rightarrow> tool list io" where
  "get_mcp_tools_from_servers w servers = get_mcp_tools_loop w servers []"

definition execute_mcp_tool ::
  "world \<Rightarrow> (string \<times> pyval) list \<Rightarrow> string \<Rightarrow> pyval \<Rightarrow> string io" where
  "execute_mcp_tool w servers tool_name arguments =
     bind_io (lift_io (py_index (py_split CHR ''_'' tool_name) 0)) (\<lambda>server_name.
       let original_tool_name = py_join ''_'' (drop 1 (py_split CHR ''_'' tool_name));
           config = map_of servers server_name
       in if config = None \<or> \<not> truthy (the config)
          then return_io (''Server '' @ server_name @ '' not available'')
          else bind_io (lift_io (py_getitem (the config) ''url'')) (\<lambda>url.
                 if \<not> truthy url
                 then return_io (''Server '' @ server_name @ '' not available'')
                 else try_except
                        (bind_io (lift_io (py_getitem (the config) ''auth'')) (\<lambda>auth.
                           with_session w url (auth_headers auth)
                             (bind_io (session_call_tool w url original_tool_name arguments)
                                (\<lambda>cs. return_io (first_text cs ''No result'')))))
                        (\<lambda>e. return_io (''Tool execution error: '' @ str_exn e))))"

section \<open>agent\_with\_official\_aws\_mcp.py\<close>

text \<open>The session over the pipes of a subprocess server, and the renaming of its tools.\<close>

definition stdio_session :: "world \<Rightarrow> string \<Rightarrow> string list \<Rightarrow> tool list io" where
  "stdio_session w server_name cmd =
     with_session w (PList (map PStr cmd)) []
       (bind_io (session_list_tools w (PList (map PStr cmd))) (\<lambda>tools.
          let prefixed_tools = prefix_tools server_name tools [] in
          bind_io (print (check_mark @ '' Connected to '' @ server_name @ '': ''
                            @ str_nat (length prefixed_tools) @ '' tools''))
            (\<lambda>_. return_io prefixed_tools)))"

definition connect_to_aws_mcp_server :: "world \<Rightarrow> string \<Rightarrow> pyval \<Rightarrow> tool list io" where
  "connect_to_aws_mcp_server w server_name server_path =
     try_except
       (if path_exists w (py_str server_path @ ''/main.py'')
        then stdio_session w server_name [''python'', py_str server_path @ ''/main.py'']
        else if path_exists w (py_str server_path @ ''/index.js'')
        then stdio_session w server_name [''node'', py_str server_path @ ''/index.js'']
        else if path_exists w (py_str server_path @ ''/server.py'')
        then stdio_session w server_name [''python'', py_str server_path @ ''/server.py'']
        else bind_io (print (cross_mark @ '' No executable found for '' @ server_name))
               (\<lambda>_. return_io []))
       (\<lambda>e. bind_io (print (cross_mark @ '' Failed to connect to '' @ server_name @ '': ''
                               @ str_exn e))
               (\<lambda>_. return_io []))"

fun get_all_official_loop ::
  "world \<Rightarrow> (string \<times> pyval) list \<Rightarrow> tool list \<Rightarrow> tool list io" where
  "get_all_official_loop w [] all_tools = return_io all_tools"
| "get_all_official_loop w ((server_name, config) # rest) all_tools =
     bind_io (lift_io (py_getitem config ''path'')) (\<lambda>server_path.
     bind_io (connect_to_aws_mcp_server w server_name server_path) (\<lambda>tools.
       get_all_official_loop w rest (all_tools @ tools)))"

text \<open>
  \<open>get_all_aws_mcp_tools\<close> of this file, which shares its name with the function of
  agent\_with\_aws\_mcp.py.
\<close>

definition get_all_aws_mcp_tools_official :: "world \<Rightarrow> tool list io" where
  "get_all_aws_mcp_tools_official w =
     (if \<not> path_exists w ''aws_mcp_config.json''
      then bind_io (print (cross_mark
                     @ '' AWS MCP config not found. Run setup_aws_official_mcp.py first''))
             (\<lambda>_. return_io [])
      else bind_io (open_json w ''aws_mcp_config.json'') (\<lambda>server_config.
             case server_config of
               PDict kvs \<Rightarrow> get_all_official_loop w kvs []
             | _ \<Rightarrow> raise_io (Raised AttributeError ''object has no attribute items'')))"

section \<open>agent\_with\_gateway\_official\_mcp.py\<close>

definition link_mark :: string where
  "link_mark = [CHR 0xF0, CHR 0x9F, CHR 0x94, CHR 0x97]"

definition wrench_mark :: string where
  "wrench_mark = [CHR 0xF0, CHR 0x9F, CHR 0x94, CHR 0xA7]"

definition clipboard_mark :: string where
  "clipboard_mark = [CHR 0xF0, CHR 0x9F, CHR 0x93, CHR 0x8B]"

text \<open>\<open>if k not in d: d[k] = []\<close>, then \<open>d[k].append(v)\<close>\<close>

fun dict_append :: "(string \<times> 'a list) list \<Rightarrow> string \<Rightarrow> 'a \<Rightarrow> (string \<times> 'a list) list" where
  "dict_append [] k v = [(k, [v])]"
| "dict_append ((k', vs) # rest) k v =
     (if k' = k then (k', vs @ [v]) # rest else (k', vs) # dict_append rest k v)"

text \<open>The loop that groups the gateway's tools by the second segment of their names.\<close>

fun group_tools ::
  "tool list \<Rightarrow> (string \<times> tool list) list \<Rightarrow> exn + (string \<times> tool list) list" where
  "group_tools [] mcp_tools = Inr mcp_tools"
| "group_tools (t # ts) mcp_tools =
     (if py_in ''Official_'' (name t)
      then (case py_index (py_split CHR ''_'' (name t)) 1 of
              Inl e \<Rightarrow> Inl e
            | Inr server_name \<Rightarrow> group_tools ts (dict_append mcp_tools server_name t))
      else group_tools ts mcp_tools)"

definition connect_to_gateway :: "world \<Rightarrow> tool list io" where
  "connect_to_gateway w =
     (if \<not> path_exists w ''official_mcp_gateway_config.json''
      then bind_io (print (cross_mark
                     @ '' Gateway config not found. Run setup_gateway_with_official_mcp.py first''))
             (\<lambda>_. return_io [])
      else
        bind_io (open_json w ''official_mcp_gateway_config.json'') (\<lambda>config.
        bind_io (lift_io (py_getitem config ''gateway_url'')) (\<lambda>gateway_url.
        bind_io (lift_io (py_getitem config ''access_token'')) (\<lambda>access_token.
        bind_io (print (link_mark @ '' Connecting to Gateway: '' @ py_str gateway_url)) (\<lambda>_.
          try_except
            (with_session w gateway_url
               [(''Authorization'', ''Bearer '' @ py_str access_token)]
               (bind_io (session_list_tools w gateway_url) (\<lambda>tools.
                bind_io (print (wrench_mark @ '' Discovered '' @ str_nat (length tools)
                                  @ '' tools from Gateway'')) (\<lambda>_.
                bind_io (lift_io (group_tools tools [])) (\<lambda>mcp_tools.
                bind_io (print (clipboard_mark @ '' Available MCP servers via Gateway: ''
                                  @ py_repr (PList (map (\<lambda>kv. PStr (fst kv)) mcp_tools)))) (\<lambda>_.
                  return_io tools))))))
            (\<lambda>e. bind_io (print (cross_mark @ '' Failed to connect to Gateway: '' @ str_exn e))
                    (\<lambda>_. return_io [])))))))"

text \<open>The class \<open>GatewayToolExecutor\<close>: its constructor stores what \<open>_load_config\<close> returns.\<close>

record GatewayToolExecutor =
  config :: pyval

definition load_config :: "world \<Rightarrow> pyval io" where
  "load_config w =
     try_except (open_json w ''official_mcp_gateway_config.json'') (\<lambda>e. return_io (PDict []))"

definition GatewayToolExecutor_init :: "world \<Rightarrow> GatewayToolExecutor io" where
  "GatewayToolExecutor_init w = bind_io (load_config w) (\<lambda>c. return_io \<lparr>config = c\<rparr>)"

text \<open>The request that \<open>execute_tool\<close> passes to \<open>session.call_tool\<close>.\<close>

definition gateway_request :: "string \<Rightarrow> (string \<times> pyval) list \<Rightarrow> string \<times> pyval" where
  "gateway_request tool_name arguments =
     (if py_in ''_proxy'' tool_name
      then (let actual_tool_name =
                  dict_get arguments ''tool_name'' (PStr (py_replace ''_proxy'' [] tool_name));
                mcp_arguments = dict_get arguments ''arguments'' (PDict arguments)
            in (tool_name,
                PDict [(''tool_name'', actual_tool_name), (''arguments'', mcp_arguments)]))
      else (tool_name, PDict arguments))"

definition execute_tool ::
  "world \<Rightarrow> GatewayToolExecutor \<Rightarrow> string \<Rightarrow> (string \<times> pyval) list \<Rightarrow> string io" where
  "execute_tool w self tool_name arguments =
     (if \<not> truthy (config self) then return_io ''Gateway not configured''
      else
        bind_io (lift_io (py_getitem (config self) ''gateway_url'')) (\<lambda>gateway_url.
        bind_io (lift_io (py_getitem (config self) ''access_token'')) (\<lambda>access_token.
          try_except
            (with_session w gateway_url
               [(''Authorization'', ''Bearer '' @ py_str access_token)]
               (bind_io (print (wrench_mark @ '' Executing via Gateway: '' @ tool_name)) (\<lambda>_.
                bind_io (case gateway_request tool_name arguments of
                           (n, payload) \<Rightarrow> session_call_tool w gateway_url n payload) (\<lambda>cs.
                  return_io (first_text cs ''Tool executed successfully'')))))
            (\<lambda>e. let error_msg = ''Gateway tool execution error: '' @ str_exn e in
                  bind_io (print (cross_mark @ '' '' @ error_msg))
                    (\<lambda>_. return_io error_msg)))))"

section \<open>agent\_with\_multiple\_mcp.py\<close>

definition safe_commands :: "unicode list" where
  "safe_commands = map ascii [''ls'', ''pwd'', ''date'', ''whoami'', ''df'', ''free'']"

text \<open>\<open>subprocess.run(command, shell=True, capture_output=True, text=True, timeout=5)\<close>\<close>

definition subprocess_run ::
  "world \<Rightarrow> unicode \<Rightarrow> event list \<times> (unicode + unicode \<times> unicode)" where
  "subprocess_run w command = ([Subprocess command], shell w command)"

text \<open>
  The \<open>try\<close> block of \<open>run_command\<close> holds the call of \<open>subprocess.run\<close> and the choice
  between the two outputs; its handler returns \<open>f"Command error: {str(e)}"\<close>.
\<close>

definition run_command :: "world \<Rightarrow> unicode \<Rightarrow> unicode io" where
  "run_command w command =
     (let cmd_parts = py_split_ws command in
      if cmd_parts = [] \<or> hd cmd_parts \<notin> set safe_commands
      then return_io (ascii ''Command not allowed. Safe commands: ''
                        @ py_join (ascii '', '') safe_commands)
      else (case subprocess_run w command of
              (l, Inr (stdout, stderr)) \<Rightarrow>
                (l, Inr (if stdout \<noteq> [] then take 500 stdout else take 500 stderr))
            | (l, Inl str_e) \<Rightarrow> (l, Inr (ascii ''Command error: '' @ str_e))))"

section \<open>Vocabulary of the properties\<close>

text \<open>The first whitespace-separated token of a command line; empty when there is none.\<close>

definition first_token :: "unicode \<Rightarrow> unicode" where
  "first_token s = takeWhile (\<lambda>c. \<not> isspace c) (dropWhile isspace s)"

text \<open>The remote calls among the events of a run: address, operation name and payload.\<close>

fun remote_calls :: "event list \<Rightarrow> (pyval \<times> string \<times> pyval) list" where
  "remote_calls [] = []"
| "remote_calls (CallTool url n a # evs) = (url, n, a) # remote_calls evs"
| "remote_calls (ev # evs) = remote_calls evs"

text \<open>
  The catalog of a server whose connector call succeeds. In agent\_with\_aws\_mcp.py the
  call is \<open>connect_to_mcp_server\<close>, which hands the tools over after the session has
  been left; in agent\_with\_external\_mcp.py the tools are stored as soon as
  \<open>list_tools\<close> has answered.
\<close>

definition aws_catalog :: "world \<Rightarrow> pyval \<Rightarrow> tool list option" where
  "aws_catalog w cfg =
     (case py_getitem cfg ''url'' of
        Inl e \<Rightarrow> None
      | Inr url \<Rightarrow>
          (if opens w url [] = None \<and> closes w url = None
           then (case list_tools w url of Inl e \<Rightarrow> None | Inr ts \<Rightarrow> Some ts)
           else None))"

definition external_catalog :: "world \<Rightarrow> pyval \<Rightarrow> tool list option" where
  "external_catalog w cfg =
     (case (py_getitem cfg ''url'', py_getitem cfg ''auth'') of
        (Inr url, Inr auth) \<Rightarrow>
          (if truthy url \<and> opens w url (auth_headers auth) = None
           then (case list_tools w url of Inl e \<Rightarrow> None | Inr ts \<Rightarrow> Some ts)
           else None)
      | _ \<Rightarrow> None)"

text \<open>
  The (server, operation) pairs that the successful connector calls return, in the
  order of the registry and of each server's answer.
\<close>

definition successful_pairs ::
  "(pyval \<Rightarrow> tool list option) \<Rightarrow> (string \<times> pyval) list \<Rightarrow> (string \<times> tool) list" where
  "successful_pairs catalog servers =
     concat (map (\<lambda>(s, cfg). case catalog cfg of None \<Rightarrow> [] | Some ts \<Rightarrow> map (Pair s) ts)
               servers)"

text \<open>The entry of the merged list for a pair: the tool under its namespaced name.\<close>

definition entry :: "string \<times> tool \<Rightarrow> tool" where
  "entry p = (snd p)\<lparr>name := fst p @ ''_'' @ name (snd p)\<rparr>"

text \<open>A descriptor of agent\_with\_external\_mcp.py is well formed when it has a URL field.\<close>

definition has_url :: "pyval \<Rightarrow> bool" where
  "has_url cfg = (case py_getitem cfg ''url'' of Inl e \<Rightarrow> False | Inr u \<Rightarrow> True)"

text \<open>
  The proxy payload in the words of the specification: the fallback tool name is the
  operation's own name without its suffix \<open>_proxy\<close>.
\<close>

definition strip_suffix :: "string \<Rightarrow> string \<Rightarrow> string" where
  "strip_suffix suf s =
     (if length suf \<le> length s \<and> drop (length s - length suf) s = suf
      then take (length s - length suf) s else s)"

definition spec_proxy_payload :: "string \<Rightarrow> (string \<times> pyval) list \<Rightarrow> pyval" where
  "spec_proxy_payload tool_name arguments =
     PDict [(''tool_name'', dict_get arguments ''tool_name'' (PStr (strip_suffix ''_proxy'' tool_name))),
            (''arguments'', dict_get arguments ''arguments'' (PDict arguments))]"

subsection \<open>Sample environments\<close>

definition sample_tool :: "string \<Rightarrow> tool" where
  "sample_tool n = \<lparr>name = n, description = []\<rparr>"

definition refused :: exn where
  "refused = Raised OtherException ''connection refused''"

text \<open>Nothing answers, no file exists.\<close>

definition silent_world :: world where
  "silent_world =
     \<lparr>opens = (\<lambda>url hdrs. Some refused),
      list_tools = (\<lambda>url. Inl refused),
      call_tool = (\<lambda>url n a. Inl refused),
      closes = (\<lambda>url. None),
      files = (\<lambda>p. None),
      shell = (\<lambda>c. Inr (ascii ''out'', []))\<rparr>"

text \<open>Servers A (operations x and y) and C (operation z) answer, server B is down.\<close>

definition three_servers :: "(string \<times> pyval) list" where
  "three_servers =
     [(''A'', PDict [(''url'', PStr ''a''), (''auth'', PNone)]),
      (''B'', PDict [(''url'', PStr ''b''), (''auth'', PNone)]),
      (''C'', PDict [(''url'', PStr ''c''), (''auth'', PNone)])]"

definition one_down :: world where
  "one_down =
     \<lparr>opens = (\<lambda>url hdrs. if url = PStr ''b'' then Some refused else None),
      list_tools = (\<lambda>url. if url = PStr ''a'' then Inr [sample_tool ''x'', sample_tool ''y'']
                           else if url = PStr ''c'' then Inr [sample_tool ''z'']
                           else Inl refused),
      call_tool = (\<lambda>url n a. if n = ''z'' then Inr [TextContent ''ok''] else Inr []),
      closes = (\<lambda>url. None),
      files = (\<lambda>p. None),
      shell = (\<lambda>c. Inr (ascii ''out'', []))\<rparr>"

text \<open>
  Servers \<open>aws\<close> (operation \<open>eks_list\<close>) and \<open>aws_eks\<close> (operation \<open>list\<close>): two pairs,
  one composite name.
\<close>

definition colliding_servers :: "(string \<times> pyval) list" where
  "colliding_servers =
     [(''aws'', PDict [(''url'', PStr ''a'')]),
      (''aws_eks'', PDict [(''url'', PStr ''b'')])]"

definition colliding_world :: world where
  "colliding_world =
     \<lparr>opens = (\<lambda>url hdrs. None),
      list_tools = (\<lambda>url. if url = PStr ''a'' then Inr [sample_tool ''eks_list'']
                           else Inr [sample_tool ''list'']),
      call_tool = (\<lambda>url n a. Inr []),
      closes = (\<lambda>url. None),
      files = (\<lambda>p. None),
      shell = (\<lambda>c. Inr ([], []))\<rparr>"

text \<open>A configured gateway that answers every call with one text element.\<close>

definition gateway_executor :: GatewayToolExecutor where
  "gateway_executor =
     \<lparr>config = PDict [(''gateway_url'', PStr ''g''), (''access_token'', PStr ''t'')]\<rparr>"

definition gateway_world :: world where
  "gateway_world =
     \<lparr>opens = (\<lambda>url hdrs. None),
      list_tools = (\<lambda>url. Inr []),
      call_tool = (\<lambda>url n a. Inr [TextContent ''42'']),
      closes = (\<lambda>url. None),
      files = (\<lambda>p. None),
      shell = (\<lambda>c. Inr ([], []))\<rparr>"

section \<open>Properties\<close>

subsection \<open>Whitespace splitting\<close>

lemma split_ws_aux_cur:
  "cur \<noteq> [] \<Longrightarrow> split_ws_aux cur s =
     (cur @ takeWhile (\<lambda>c. \<not> isspace c) s) # split_ws_aux [] (dropWhile (\<lambda>c. \<not> isspace c) s)"
  by (induction s arbitrary: cur) auto

lemma split_ws_aux_empty:
  "split_ws_aux [] s =
     (if first_token s = [] then []
      else first_token s # split_ws_aux [] (dropWhile (\<lambda>c. \<not> isspace c) (dropWhile isspace s)))"
proof (induction s)
  case Nil
  show ?case by (simp add: first_token_def)
next
  case (Cons c cs)
  show ?case
  proof (cases "isspace c")
    case True
    with Cons show ?thesis by (simp add: first_token_def)
  next
    case False
    then show ?thesis by (simp add: first_token_def split_ws_aux_cur)
  qed
qed

lemma py_split_ws_nil: "py_split_ws s = [] \<longleftrightarrow> first_token s = []"
  unfolding py_split_ws_def by (subst split_ws_aux_empty) simp

lemma py_split_ws_hd: "first_token s \<noteq> [] \<Longrightarrow> hd (py_split_ws s) = first_token s"
  unfolding py_split_ws_def by (subst split_ws_aux_empty) simp

lemma refusal_text:
  "ascii ''Command not allowed. Safe commands: '' @ py_join (ascii '', '') safe_commands
     = ascii ''Command not allowed. Safe commands: ls, pwd, date, whoami, df, free''"
  by (simp add: safe_commands_def ascii_def)

subsection \<open>The command whitelist\<close>

lemmas io_defs = return_io_def raise_io_def bind_io_def try_except_def print_def lift_io_def

text \<open>
  C10. \<open>run_command\<close> looks at the first whitespace-separated token only, whitespace
  being every code point at which \<open>str.split()\<close> splits. When that token is one of the
  six safe commands, the whole command string, whatever follows the token, is passed
  unchanged to \<open>subprocess.run\<close> with \<open>shell=True\<close>, and the function returns a
  string. When it is not (or there is no token), the refusal naming the safe commands
  is returned and no subprocess is started.
\<close>

theorem run_command_whitelist:
  "(first_token command \<in> set safe_commands \<longrightarrow>
      fst (run_command w command) = [Subprocess command] \<and>
      (\<exists>out. snd (run_command w command) = Inr out))
   \<and> (first_token command \<notin> set safe_commands \<longrightarrow>
      run_command w command =
        ([], Inr (ascii ''Command not allowed. Safe commands: ls, pwd, date, whoami, df, free'')))"
proof (intro conjI impI)
  assume a: "first_token command \<in> set safe_commands"
  then have ne: "first_token command \<noteq> []" by (auto simp: safe_commands_def ascii_def)
  then have p: "py_split_ws command \<noteq> []" "hd (py_split_ws command) \<in> set safe_commands"
    using a by (simp_all add: py_split_ws_nil py_split_ws_hd)
  show "fst (run_command w command) = [Subprocess command]"
    using p by (cases "shell w command")
      (auto simp: run_command_def Let_def subprocess_run_def split: prod.splits)
  show "\<exists>out. snd (run_command w command) = Inr out"
    using p by (cases "shell w command")
      (auto simp: run_command_def Let_def subprocess_run_def split: prod.splits)
next
  assume a: "first_token command \<notin> set safe_commands"
  have "py_split_ws command = [] \<or> hd (py_split_ws command) \<notin> set safe_commands"
  proof (cases "first_token command = []")
    case True then show ?thesis by (simp add: py_split_ws_nil)
  next
    case False then show ?thesis using a by (simp add: py_split_ws_hd)
  qed
  then show "run_command w command =
        ([], Inr (ascii ''Command not allowed. Safe commands: ls, pwd, date, whoami, df, free''))"
    unfolding run_command_def Let_def refusal_text by (auto simp: return_io_def)
qed

theorem run_command_whitelist_witness:
  "first_token (ascii ''ls ; id'') \<in> set safe_commands
   \<and> fst (run_command silent_world (ascii ''ls ; id'')) = [Subprocess (ascii ''ls ; id'')]
   \<and> first_token (ascii ''ls'' @ [0xA0] @ ascii ''-a'') \<in> set safe_commands
   \<and> fst (run_command silent_world (ascii ''ls'' @ [0xA0] @ ascii ''-a''))
       = [Subprocess (ascii ''ls'' @ [0xA0] @ ascii ''-a'')]
   \<and> first_token (ascii ''ls;id'') \<notin> set safe_commands
   \<and> run_command silent_world (ascii ''ls;id'') =
        ([], Inr (ascii ''Command not allowed. Safe commands: ls, pwd, date, whoami, df, free''))
   \<and> first_token [] \<notin> set safe_commands
   \<and> run_command silent_world [] =
        ([], Inr (ascii ''Command not allowed. Safe commands: ls, pwd, date, whoami, df, free''))"
proof -
  have a: "first_token (ascii ''ls ; id'') \<in> set safe_commands"
    by (simp add: first_token_def isspace_def safe_commands_def ascii_def)
  have b: "first_token (ascii ''ls'' @ [0xA0] @ ascii ''-a'') \<in> set safe_commands"
    by (simp add: first_token_def isspace_def safe_commands_def ascii_def)
  have c: "first_token (ascii ''ls;id'') \<notin> set safe_commands"
    by (simp add: first_token_def isspace_def safe_commands_def ascii_def)
  have d: "first_token [] \<notin> set safe_commands"
    by (simp add: first_token_def safe_commands_def ascii_def)
  show ?thesis
    using a b c d run_command_whitelist [of "ascii ''ls ; id''" silent_world]
      run_command_whitelist [of "ascii ''ls'' @ [0xA0] @ ascii ''-a''" silent_world]
      run_command_whitelist [of "ascii ''ls;id''" silent_world]
      run_command_whitelist [of "[]" silent_world]
    by simp
qed

subsection \<open>Absent configuration\<close>

text \<open>
  C9. When the server registry file is absent, discovery prints its diagnostic and
  returns the empty list. When the gateway file is absent, gateway discovery does the
  same, the executor is built with an empty configuration, and every dispatch through
  it returns the string "Gateway not configured". None of the three raises.
\<close>

theorem missing_configuration:
  "(files w ''aws_mcp_config.json'' = None \<longrightarrow>
      get_all_aws_mcp_tools_official w =
        ([Print (cross_mark @ '' AWS MCP config not found. Run setup_aws_official_mcp.py first'')],
         Inr []))
   \<and> (files w ''official_mcp_gateway_config.json'' = None \<longrightarrow>
      connect_to_gateway w =
        ([Print (cross_mark
            @ '' Gateway config not found. Run setup_gateway_with_official_mcp.py first'')],
         Inr [])
      \<and> GatewayToolExecutor_init w = ([], Inr \<lparr>config = PDict []\<rparr>)
      \<and> execute_tool w \<lparr>config = PDict []\<rparr> tool_name arguments
          = ([], Inr ''Gateway not configured''))"
  by (simp add: get_all_aws_mcp_tools_official_def connect_to_gateway_def path_exists_def
      GatewayToolExecutor_init_def load_config_def open_json_def execute_tool_def io_defs)

theorem missing_configuration_witness:
  "files silent_world ''aws_mcp_config.json'' = None
   \<and> snd (get_all_aws_mcp_tools_official silent_world) = Inr []
   \<and> files silent_world ''official_mcp_gateway_config.json'' = None
   \<and> snd (connect_to_gateway silent_world) = Inr []
   \<and> execute_tool silent_world \<lparr>config = PDict []\<rparr> ''Official_cost'' []
          = ([], Inr ''Gateway not configured'')"
  using missing_configuration [of silent_world "''Official_cost''" "[]"]
  by (simp add: silent_world_def)

subsection \<open>Splitting and joining names\<close>

lemma split_aux_nonempty: "split_aux sep cur s \<noteq> []"
  by (induction s arbitrary: cur) auto

lemma split_aux_length: "sep \<in> set s \<Longrightarrow> 2 \<le> length (split_aux sep cur s)"
proof (induction s arbitrary: cur)
  case Nil then show ?case by simp
next
  case (Cons c cs)
  show ?case
  proof (cases "c = sep")
    case True
    have "1 \<le> length (split_aux sep [] cs)"
      using split_aux_nonempty [of sep "[]" cs] by (cases "split_aux sep [] cs") auto
    with True show ?thesis by simp
  next
    case False
    with Cons show ?thesis by auto
  qed
qed

lemma py_split_length: "sep \<in> set s \<Longrightarrow> 2 \<le> length (py_split sep s)"
  by (simp add: py_split_def split_aux_length)

lemma py_split_hd: "py_index (py_split sep s) 0 = Inr (hd (py_split sep s))"
  using split_aux_nonempty [of sep "[]" s]
  by (cases "split_aux sep [] s") (auto simp: py_split_def py_index_def)

lemma py_split_segments:
  assumes "sep \<in> set s"
  shows "py_index (py_split sep s) 0 = Inr (py_split sep s ! 0)"
    and "py_index (py_split sep s) 1 = Inr (py_split sep s ! 1)"
  using py_split_length [OF assms] by (auto simp: py_index_def)

lemma join_split_aux: "py_join [sep] (split_aux sep cur s) = cur @ s"
proof (induction s arbitrary: cur)
  case Nil show ?case by simp
next
  case (Cons c cs)
  show ?case
  proof (cases "c = sep")
    case True
    obtain x xs where x: "split_aux sep [] cs = x # xs"
      using split_aux_nonempty [of sep "[]" cs] by (cases "split_aux sep [] cs") auto
    have "py_join [sep] (x # xs) = cs" using Cons [of "[]"] x by simp
    with True x show ?thesis by simp
  next
    case False
    with Cons [of "cur @ [c]"] show ?thesis by simp
  qed
qed

lemma split_aux_segment:
  "sep \<notin> set a \<Longrightarrow> split_aux sep cur (a @ sep # rest) = (cur @ a) # split_aux sep [] rest"
  by (induction a arbitrary: cur) auto

text \<open>
  Where the reverse parses invert the forward rule: the parse of
  \<open>execute_aws_mcp_tool\<close> on identifiers of exactly two segments, the parse of
  \<open>execute_mcp_tool\<close> on identifiers of exactly one, for every operation name.
\<close>

lemma two_segment_round_trip:
  assumes "CHR ''_'' \<notin> set a" "CHR ''_'' \<notin> set b"
  shows "py_split CHR ''_'' ((a @ ''_'' @ b) @ ''_'' @ n) = a # b # py_split CHR ''_'' n"
    and "py_join ''_'' (drop 2 (py_split CHR ''_'' ((a @ ''_'' @ b) @ ''_'' @ n))) = n"
proof -
  show s: "py_split CHR ''_'' ((a @ ''_'' @ b) @ ''_'' @ n) = a # b # py_split CHR ''_'' n"
    using assms by (simp add: py_split_def split_aux_segment)
  show "py_join ''_'' (drop 2 (py_split CHR ''_'' ((a @ ''_'' @ b) @ ''_'' @ n))) = n"
    unfolding s using join_split_aux [of "CHR ''_''" "[]" n] by (simp add: py_split_def)
qed

lemma one_segment_round_trip:
  assumes "CHR ''_'' \<notin> set a"
  shows "py_split CHR ''_'' (a @ ''_'' @ n) = a # py_split CHR ''_'' n"
    and "py_join ''_'' (drop 1 (py_split CHR ''_'' (a @ ''_'' @ n))) = n"
proof -
  show s: "py_split CHR ''_'' (a @ ''_'' @ n) = a # py_split CHR ''_'' n"
    using assms by (simp add: py_split_def split_aux_segment)
  show "py_join ''_'' (drop 1 (py_split CHR ''_'' (a @ ''_'' @ n))) = n"
    unfolding s using join_split_aux [of "CHR ''_''" "[]" n] by (simp add: py_split_def)
qed

subsection \<open>Dispatch: resolving the server\<close>

text \<open>
  C1. The server \<open>github\<close> is registered in \<open>AWS_MCP_SERVERS\<close>, and discovery names its
  operation \<open>list_repositories\<close> by the forward rule. Dispatching that name does not
  recover the pair: the parse takes \<open>github_list\<close> for the server, finds no such entry
  and answers that the server is not found, whatever the environment and the arguments.
\<close>

theorem github_round_trip_fails:
  "''github'' \<in> set (map fst AWS_MCP_SERVERS)
   \<and> execute_aws_mcp_tool w AWS_MCP_SERVERS (''github'' @ ''_'' @ ''list_repositories'') arguments
       = ([], Inr ''Server github_list not found'')"
  by (simp add: execute_aws_mcp_tool_def AWS_MCP_SERVERS_def py_split_def py_index_def
      io_defs Let_def)

text \<open>
  C4. Two dispatchers let an exception reach the caller. \<open>execute_aws_mcp_tool\<close> parses
  the name before its \<open>try\<close> block, so a name without an underscore raises
  \<open>IndexError\<close>; \<open>execute_tool\<close> reads both configuration fields before its \<open>try\<close>
  block, so a configuration file without an access token raises \<open>KeyError\<close>.
\<close>

theorem dispatch_raises:
  "execute_aws_mcp_tool w servers ''ping'' arguments
     = ([], Inl (Raised IndexError ''list index out of range''))
   \<and> execute_tool w \<lparr>config = PDict [(''gateway_url'', PStr ''g'')]\<rparr> tool_name kwargs
     = ([], Inl (Raised KeyError ([CHR 0x27] @ ''access_token'' @ [CHR 0x27])))"
  by (simp add: execute_aws_mcp_tool_def execute_tool_def py_split_def py_index_def
      io_defs Let_def)

text \<open>
  C5. A name that contains the separator and whose parsed server identifier is not a
  key of the registry is answered with the "not found" string
  (\<open>execute_aws_mcp_tool\<close>, identifier of two segments) or the "not available" string
  (\<open>execute_mcp_tool\<close>, identifier of one segment); no event takes place, so no remote
  call is made, and nothing is raised.
\<close>

theorem unknown_server_dispatch:
  "(CHR ''_'' \<in> set tool_name \<longrightarrow>
      map_of servers (py_split CHR ''_'' tool_name ! 0 @ ''_'' @ py_split CHR ''_'' tool_name ! 1) = None \<longrightarrow>
      execute_aws_mcp_tool w servers tool_name arguments =
        ([], Inr (''Server '' @ py_split CHR ''_'' tool_name ! 0 @ ''_''
                    @ py_split CHR ''_'' tool_name ! 1 @ '' not found'')))
   \<and> (map_of servers (hd (py_split CHR ''_'' tool_name)) = None \<longrightarrow>
      execute_mcp_tool w servers tool_name arguments =
        ([], Inr (''Server '' @ hd (py_split CHR ''_'' tool_name) @ '' not available'')))"
proof (intro conjI impI)
  assume u: "CHR ''_'' \<in> set tool_name"
    and n: "map_of servers (py_split CHR ''_'' tool_name ! 0 @ ''_'' @ py_split CHR ''_'' tool_name ! 1) = None"
  from n py_split_segments [OF u]
  show "execute_aws_mcp_tool w servers tool_name arguments =
        ([], Inr (''Server '' @ py_split CHR ''_'' tool_name ! 0 @ ''_''
                    @ py_split CHR ''_'' tool_name ! 1 @ '' not found''))"
    by (simp add: execute_aws_mcp_tool_def io_defs Let_def)
next
  assume "map_of servers (hd (py_split CHR ''_'' tool_name)) = None"
  then show "execute_mcp_tool w servers tool_name arguments =
        ([], Inr (''Server '' @ hd (py_split CHR ''_'' tool_name) @ '' not available''))"
    by (simp add: execute_mcp_tool_def py_split_hd io_defs Let_def)
qed

theorem unknown_server_dispatch_witness:
  "CHR ''_'' \<in> set ''aws_s3_list''
   \<and> map_of AWS_MCP_SERVERS ''aws_s3'' = None
   \<and> execute_aws_mcp_tool silent_world AWS_MCP_SERVERS ''aws_s3_list'' PNone
       = ([], Inr ''Server aws_s3 not found'')
   \<and> map_of (MCP_SERVERS PNone PNone) ''weather'' = None
   \<and> execute_mcp_tool silent_world (MCP_SERVERS PNone PNone) ''weather_today'' PNone
       = ([], Inr ''Server weather not available'')"
  using unknown_server_dispatch [of "''aws_s3_list''" AWS_MCP_SERVERS silent_world PNone]
    unknown_server_dispatch [of "''weather_today''" "MCP_SERVERS PNone PNone" silent_world PNone]
  by (simp add: py_split_def AWS_MCP_SERVERS_def MCP_SERVERS_def)

subsection \<open>Dispatch: the remote call and its result\<close>

lemma py_getitem_truthy: "py_getitem cfg k = Inr v \<Longrightarrow> truthy cfg"
  by (cases cfg) (auto split: option.splits)

lemma execute_aws_mcp_tool_result:
  assumes "CHR ''_'' \<in> set tool_name"
    and "map_of servers (py_split CHR ''_'' tool_name ! 0 @ ''_'' @ py_split CHR ''_'' tool_name ! 1)
           = Some cfg"
    and "py_getitem cfg ''url'' = Inr url"
    and "opens w url [] = None" and "closes w url = None"
    and "call_tool w url (py_join ''_'' (drop 2 (py_split CHR ''_'' tool_name))) arguments = Inr cs"
  shows "snd (execute_aws_mcp_tool w servers tool_name arguments)
           = Inr (case cs of [] \<Rightarrow> ''No result'' | c # _ \<Rightarrow> content_text c)"
  using assms(2-) py_split_segments [OF assms(1)] py_getitem_truthy [OF assms(3)]
  by (cases cs)
    (simp_all add: execute_aws_mcp_tool_def io_defs Let_def with_session_def
      session_call_tool_def first_text_def)

lemma execute_mcp_tool_result:
  assumes "map_of servers (hd (py_split CHR ''_'' tool_name)) = Some cfg"
    and "py_getitem cfg ''url'' = Inr url" and "truthy url"
    and "py_getitem cfg ''auth'' = Inr auth"
    and "opens w url (auth_headers auth) = None" and "closes w url = None"
    and "call_tool w url (py_join ''_'' (drop 1 (py_split CHR ''_'' tool_name))) arguments = Inr cs"
  shows "snd (execute_mcp_tool w servers tool_name arguments)
           = Inr (case cs of [] \<Rightarrow> ''No result'' | c # _ \<Rightarrow> content_text c)"
  using assms py_getitem_truthy [OF assms(2)]
  by (cases cs)
    (simp_all add: execute_mcp_tool_def py_split_hd io_defs Let_def with_session_def
      session_call_tool_def first_text_def)

lemma execute_tool_result:
  assumes "py_getitem (config self) ''gateway_url'' = Inr url"
    and "py_getitem (config self) ''access_token'' = Inr tok"
    and "opens w url [(''Authorization'', ''Bearer '' @ py_str tok)] = None"
    and "closes w url = None"
    and "call_tool w url (fst (gateway_request tool_name kwargs))
           (snd (gateway_request tool_name kwargs)) = Inr cs"
  shows "snd (execute_tool w self tool_name kwargs)
           = Inr (case cs of [] \<Rightarrow> ''Tool executed successfully'' | c # _ \<Rightarrow> content_text c)"
proof -
  obtain n payload where g: "gateway_request tool_name kwargs = (n, payload)"
    by (cases "gateway_request tool_name kwargs")
  with assms(5) have c: "call_tool w url n payload = Inr cs" by simp
  show ?thesis
    using assms(1-4) g c py_getitem_truthy [OF assms(1)]
    by (cases cs)
      (simp_all add: execute_tool_def io_defs Let_def with_session_def
        session_call_tool_def first_text_def)
qed

text \<open>
  C8. When the server resolves, the session opens and closes without an exception and
  the remote call answers with the content list \<open>cs\<close>, each dispatcher returns the text
  of the first element of \<open>cs\<close>, or its marker for an empty answer: "No result" for
  \<open>execute_aws_mcp_tool\<close> and \<open>execute_mcp_tool\<close>, "Tool executed successfully" for
  \<open>execute_tool\<close>.
\<close>

theorem result_normalization:
  "(CHR ''_'' \<in> set tool_name \<longrightarrow>
    map_of servers (py_split CHR ''_'' tool_name ! 0 @ ''_'' @ py_split CHR ''_'' tool_name ! 1)
      = Some cfg \<longrightarrow>
    py_getitem cfg ''url'' = Inr url \<longrightarrow> opens w url [] = None \<longrightarrow> closes w url = None \<longrightarrow>
    call_tool w url (py_join ''_'' (drop 2 (py_split CHR ''_'' tool_name))) arguments = Inr cs \<longrightarrow>
    snd (execute_aws_mcp_tool w servers tool_name arguments)
      = Inr (case cs of [] \<Rightarrow> ''No result'' | c # _ \<Rightarrow> content_text c))
   \<and> (map_of servers (hd (py_split CHR ''_'' tool_name)) = Some cfg \<longrightarrow>
    py_getitem cfg ''url'' = Inr url \<longrightarrow> truthy url \<longrightarrow> py_getitem cfg ''auth'' = Inr auth \<longrightarrow>
    opens w url (auth_headers auth) = None \<longrightarrow> closes w url = None \<longrightarrow>
    call_tool w url (py_join ''_'' (drop 1 (py_split CHR ''_'' tool_name))) arguments = Inr cs \<longrightarrow>
    snd (execute_mcp_tool w servers tool_name arguments)
      = Inr (case cs of [] \<Rightarrow> ''No result'' | c # _ \<Rightarrow> content_text c))
   \<and> (py_getitem (config self) ''gateway_url'' = Inr url \<longrightarrow>
    py_getitem (config self) ''access_token'' = Inr tok \<longrightarrow>
    opens w url [(''Authorization'', ''Bearer '' @ py_str tok)] = None \<longrightarrow>
    closes w url = None \<longrightarrow>
    call_tool w url (fst (gateway_request tool_name kwargs))
      (snd (gateway_request tool_name kwargs)) = Inr cs \<longrightarrow>
    snd (execute_tool w self tool_name kwargs)
      = Inr (case cs of [] \<Rightarrow> ''Tool executed successfully'' | c # _ \<Rightarrow> content_text c))"
proof (intro conjI impI)
  assume "CHR ''_'' \<in> set tool_name"
    "map_of servers (py_split CHR ''_'' tool_name ! 0 @ ''_'' @ py_split CHR ''_'' tool_name ! 1)
      = Some cfg"
    "py_getitem cfg ''url'' = Inr url" "opens w url [] = None" "closes w url = None"
    "call_tool w url (py_join ''_'' (drop 2 (py_split CHR ''_'' tool_name))) arguments = Inr cs"
  then show "snd (execute_aws_mcp_tool w servers tool_name arguments)
      = Inr (case cs of [] \<Rightarrow> ''No result'' | c # _ \<Rightarrow> content_text c)"
    by (rule execute_aws_mcp_tool_result)
next
  assume "map_of servers (hd (py_split CHR ''_'' tool_name)) = Some cfg"
    "py_getitem cfg ''url'' = Inr url" "truthy url" "py_getitem cfg ''auth'' = Inr auth"
    "opens w url (auth_headers auth) = None" "closes w url = None"
    "call_tool w url (py_join ''_'' (drop 1 (py_split CHR ''_'' tool_name))) arguments = Inr cs"
  then show "snd (execute_mcp_tool w servers tool_name arguments)
      = Inr (case cs of [] \<Rightarrow> ''No result'' | c # _ \<Rightarrow> content_text c)"
    by (rule execute_mcp_tool_result)
next
  assume "py_getitem (config self) ''gateway_url'' = Inr url"
    "py_getitem (config self) ''access_token'' = Inr tok"
    "opens w url [(''Authorization'', ''Bearer '' @ py_str tok)] = None"
    "closes w url = None"
    "call_tool w url (fst (gateway_request tool_name kwargs))
      (snd (gateway_request tool_name kwargs)) = Inr cs"
  then show "snd (execute_tool w self tool_name kwargs)
      = Inr (case cs of [] \<Rightarrow> ''Tool executed successfully'' | c # _ \<Rightarrow> content_text c)"
    by (rule execute_tool_result)
qed

theorem result_normalization_witness:
  "CHR ''_'' \<in> set ''aws_eks_list''
   \<and> map_of colliding_servers ''aws_eks'' = Some (PDict [(''url'', PStr ''b'')])
   \<and> snd (execute_aws_mcp_tool colliding_world colliding_servers ''aws_eks_list'' PNone)
       = Inr ''No result''
   \<and> map_of three_servers ''C'' = Some (PDict [(''url'', PStr ''c''), (''auth'', PNone)])
   \<and> call_tool one_down (PStr ''c'') ''z'' PNone = Inr [TextContent ''ok'']
   \<and> snd (execute_mcp_tool one_down three_servers ''C_z'' PNone) = Inr ''ok''
   \<and> call_tool gateway_world (PStr ''g'') ''Official_cost'' (PDict []) = Inr [TextContent ''42'']
   \<and> snd (execute_tool gateway_world gateway_executor ''Official_cost'' []) = Inr ''42''"
  using result_normalization [of "''aws_eks_list''" colliding_servers
      "PDict [(''url'', PStr ''b'')]" "PStr ''b''" colliding_world PNone "[]"]
    result_normalization [of "''C_z''" three_servers
      "PDict [(''url'', PStr ''c''), (''auth'', PNone)]" "PStr ''c''" one_down PNone
      "[TextContent ''ok'']" PNone]
    result_normalization [of "''Official_cost''" three_servers
      "PDict [(''url'', PStr ''c''), (''auth'', PNone)]" "PStr ''g''" gateway_world PNone
      "[TextContent ''42'']" PNone gateway_executor "PStr ''t''" "[]"]
  by (simp add: py_split_def colliding_servers_def colliding_world_def three_servers_def
      one_down_def gateway_world_def gateway_executor_def gateway_request_def auth_headers_def)

subsection \<open>The gateway proxy payload\<close>

lemma execute_tool_calls:
  assumes "py_getitem (config self) ''gateway_url'' = Inr url"
    and "py_getitem (config self) ''access_token'' = Inr tok"
  shows "remote_calls (fst (execute_tool w self tool_name kwargs)) =
           (if opens w url [(''Authorization'', ''Bearer '' @ py_str tok)] = None
            then [(url, fst (gateway_request tool_name kwargs),
                   snd (gateway_request tool_name kwargs))]
            else [])"
proof -
  obtain n payload where g: "gateway_request tool_name kwargs = (n, payload)"
    by (cases "gateway_request tool_name kwargs")
  show ?thesis
    using assms g py_getitem_truthy [OF assms(1)]
    by (cases "call_tool w url n payload"; cases "closes w url";
        cases "opens w url [(''Authorization'', ''Bearer '' @ py_str tok)]")
      (simp_all add: execute_tool_def io_defs Let_def with_session_def
        session_call_tool_def first_text_def)
qed

text \<open>
  C7, as the specification words it, fails for a proxy operation whose name holds
  \<open>_proxy\<close> more than once: for \<open>my_proxy_cost_proxy\<close> called without a \<open>tool_name\<close>
  argument the adapter sends the tool name \<open>my_cost\<close>, while stripping the suffix
  gives \<open>my_proxy_cost\<close>.
\<close>

theorem proxy_suffix_counterexample:
  "py_in ''_proxy'' ''my_proxy_cost_proxy''
   \<and> remote_calls (fst (execute_tool gateway_world gateway_executor ''my_proxy_cost_proxy'' []))
       = [(PStr ''g'', ''my_proxy_cost_proxy'',
           PDict [(''tool_name'', PStr ''my_cost''), (''arguments'', PDict [])])]
   \<and> spec_proxy_payload ''my_proxy_cost_proxy'' []
       = PDict [(''tool_name'', PStr ''my_proxy_cost''), (''arguments'', PDict [])]
   \<and> remote_calls (fst (execute_tool gateway_world gateway_executor ''my_proxy_cost_proxy'' []))
       \<noteq> [(PStr ''g'', ''my_proxy_cost_proxy'', spec_proxy_payload ''my_proxy_cost_proxy'' [])]"
  by (simp add: execute_tool_def gateway_executor_def gateway_world_def gateway_request_def
      spec_proxy_payload_def strip_suffix_def dict_get_def startswith_def py_replace.simps
      io_defs Let_def with_session_def session_call_tool_def first_text_def)

text \<open>
  C7, amended. For a tool whose name contains \<open>_proxy\<close>, invoked with the arguments
  \<open>A\<close> through a configured executor, the only remote call is the call of the proxy
  operation itself at the gateway's URL, made once the session has opened, with the
  payload \<open>{tool_name: t, arguments: a}\<close>, where \<open>t\<close> is \<open>A["tool_name"]\<close> if present
  and otherwise the operation's name with every occurrence of \<open>_proxy\<close> removed, and
  \<open>a\<close> is \<open>A["arguments"]\<close> if present and otherwise \<open>A\<close>.
\<close>

theorem proxy_repackaging:
  assumes "py_in ''_proxy'' tool_name"
    and "py_getitem (config self) ''gateway_url'' = Inr url"
    and "py_getitem (config self) ''access_token'' = Inr tok"
  shows "remote_calls (fst (execute_tool w self tool_name A)) =
           (if opens w url [(''Authorization'', ''Bearer '' @ py_str tok)] = None
            then [(url, tool_name,
                   PDict [(''tool_name'',
                             dict_get A ''tool_name'' (PStr (py_replace ''_proxy'' [] tool_name))),
                          (''arguments'', dict_get A ''arguments'' (PDict A))])]
            else [])"
  using execute_tool_calls [OF assms(2,3), of w tool_name A] assms(1)
  by (simp add: gateway_request_def Let_def)

theorem proxy_repackaging_witness:
  "py_in ''_proxy'' ''cost_proxy''
   \<and> py_getitem (config gateway_executor) ''gateway_url'' = Inr (PStr ''g'')
   \<and> py_getitem (config gateway_executor) ''access_token'' = Inr (PStr ''t'')
   \<and> remote_calls (fst (execute_tool gateway_world gateway_executor ''cost_proxy''
         [(''tool_name'', PStr ''get_monthly_costs''),
          (''arguments'', PDict [(''months'', PInt 3)])]))
       = [(PStr ''g'', ''cost_proxy'',
           PDict [(''tool_name'', PStr ''get_monthly_costs''),
                  (''arguments'', PDict [(''months'', PInt 3)])])]
   \<and> remote_calls (fst (execute_tool gateway_world gateway_executor ''cost_proxy''
         [(''months'', PInt 3)]))
       = [(PStr ''g'', ''cost_proxy'',
           PDict [(''tool_name'', PStr ''cost''),
                  (''arguments'', PDict [(''months'', PInt 3)])])]"
proof -
  have a: "py_in ''_proxy'' ''cost_proxy''" by (simp add: startswith_def)
  have b: "py_getitem (config gateway_executor) ''gateway_url'' = Inr (PStr ''g'')"
    "py_getitem (config gateway_executor) ''access_token'' = Inr (PStr ''t'')"
    by (simp_all add: gateway_executor_def)
  have r: "py_replace ''_proxy'' [] ''cost_proxy'' = ''cost''"
    by (simp add: py_replace.simps startswith_def)
  show ?thesis
    using a b proxy_repackaging [OF a b, of gateway_world
        "[(''tool_name'', PStr ''get_monthly_costs''), (''arguments'', PDict [(''months'', PInt 3)])]"]
      proxy_repackaging [OF a b, of gateway_world "[(''months'', PInt 3)]"]
    by (simp add: r dict_get_def gateway_world_def)
qed

subsection \<open>Discovery\<close>

lemma snd_bind_io: "snd m = Inr x \<Longrightarrow> snd (bind_io m f) = snd (f x)"
  by (cases m) (auto simp: bind_io_def split: prod.splits)

lemma snd_bind_io_pair: "snd (bind_io (l, Inr x) f) = snd (f x)"
  by (rule snd_bind_io) simp

lemma bind_io_lift_Inr: "bind_io (lift_io (Inr x)) f = f x"
  by (cases "f x") (simp add: bind_io_def lift_io_def)

lemma prefix_tools_eq:
  "prefix_tools server_name ts acc = acc @ map (\<lambda>t. entry (server_name, t)) ts"
  by (induction ts arbitrary: acc) (simp_all add: entry_def)

lemma connect_to_mcp_server_result:
  "snd (connect_to_mcp_server w s cfg) =
     Inr (case aws_catalog w cfg of None \<Rightarrow> [] | Some ts \<Rightarrow> map (\<lambda>t. entry (s, t)) ts)"
proof (cases "py_getitem cfg ''url''")
  case (Inl e)
  then show ?thesis by (simp add: connect_to_mcp_server_def aws_catalog_def io_defs)
next
  case (Inr url)
  then show ?thesis
    by (cases "opens w url []"; cases "closes w url"; cases "list_tools w url")
      (simp_all add: connect_to_mcp_server_def aws_catalog_def io_defs with_session_def
        session_list_tools_def prefix_tools_eq Let_def)
qed

lemma successful_pairs_Cons:
  "successful_pairs catalog ((s, cfg) # rest) =
     (case catalog cfg of None \<Rightarrow> [] | Some ts \<Rightarrow> map (Pair s) ts) @ successful_pairs catalog rest"
  by (simp add: successful_pairs_def)

lemma get_all_aws_mcp_tools_loop_result:
  "snd (get_all_aws_mcp_tools_loop w servers acc) =
     Inr (acc @ map entry (successful_pairs (aws_catalog w) servers))"
proof (induction servers arbitrary: acc)
  case Nil
  show ?case by (simp add: successful_pairs_def return_io_def)
next
  case (Cons sc rest)
  obtain s cfg where sc: "sc = (s, cfg)" by (cases sc)
  show ?case
    unfolding sc get_all_aws_mcp_tools_loop.simps
    by (subst snd_bind_io [OF connect_to_mcp_server_result])
      (simp add: Cons successful_pairs_Cons comp_def split: option.splits)
qed

lemma get_all_aws_mcp_tools_result:
  "snd (get_all_aws_mcp_tools w servers) = Inr (map entry (successful_pairs (aws_catalog w) servers))"
  by (simp add: get_all_aws_mcp_tools_def get_all_aws_mcp_tools_loop_result)

lemma get_mcp_tools_try_result:
  assumes "py_getitem cfg ''url'' = Inr url" "truthy url"
  shows "fst (snd (get_mcp_tools_try w s cfg acc)) =
           acc @ (case external_catalog w cfg of None \<Rightarrow> [] | Some ts \<Rightarrow> map (\<lambda>t. entry (s, t)) ts)"
proof (cases "py_getitem cfg ''auth''")
  case (Inl e)
  with assms show ?thesis by (simp add: get_mcp_tools_try_def external_catalog_def)
next
  case (Inr auth)
  with assms show ?thesis
    by (cases "opens w url (auth_headers auth)"; cases "list_tools w url")
      (simp_all add: get_mcp_tools_try_def external_catalog_def with_session_state_def
        prefix_tools_eq)
qed

lemma external_catalog_falsy:
  "py_getitem cfg ''url'' = Inr url \<Longrightarrow> \<not> truthy url \<Longrightarrow> external_catalog w cfg = None"
  by (simp add: external_catalog_def split: sum.splits)

lemma get_mcp_tools_loop_result:
  "list_all (\<lambda>sc. has_url (snd sc)) servers \<Longrightarrow>
   snd (get_mcp_tools_loop w servers acc) =
     Inr (acc @ map entry (successful_pairs (external_catalog w) servers))"
proof (induction servers arbitrary: acc)
  case Nil
  show ?case by (simp add: successful_pairs_def return_io_def)
next
  case (Cons sc rest)
  obtain s cfg where sc: "sc = (s, cfg)" by (cases sc)
  from Cons.prems sc obtain url where url: "py_getitem cfg ''url'' = Inr url"
    by (auto simp: has_url_def split: sum.splits)
  from Cons.prems have rest: "list_all (\<lambda>sc. has_url (snd sc)) rest" by simp
  show ?case
  proof (cases "truthy url")
    case False
    with url show ?thesis
      unfolding sc
      by (simp add: bind_io_lift_Inr Cons.IH [OF rest] successful_pairs_Cons
          external_catalog_falsy)
  next
    case True
    obtain l all_tools' r where t: "get_mcp_tools_try w s cfg acc = (l, all_tools', r)"
      by (cases "get_mcp_tools_try w s cfg acc")
    with get_mcp_tools_try_result [OF url True, of w s acc]
    have a: "all_tools' =
        acc @ (case external_catalog w cfg of None \<Rightarrow> [] | Some ts \<Rightarrow> map (\<lambda>t. entry (s, t)) ts)"
      by simp
    show ?thesis
      unfolding sc using url True t
      by (cases r)
        (simp_all add: bind_io_lift_Inr snd_bind_io_pair Cons.IH [OF rest]
          successful_pairs_Cons a comp_def split: option.splits)
  qed
qed

lemma get_mcp_tools_from_servers_result:
  "list_all (\<lambda>sc. has_url (snd sc)) servers \<Longrightarrow>
   snd (get_mcp_tools_from_servers w servers) =
     Inr (map entry (successful_pairs (external_catalog w) servers))"
  by (simp add: get_mcp_tools_from_servers_def get_mcp_tools_loop_result)

lemma successful_pairs_mem:
  "(s, cfg) \<in> set servers \<Longrightarrow> catalog cfg = Some ts \<Longrightarrow> t \<in> set ts \<Longrightarrow>
   (s, t) \<in> set (successful_pairs catalog servers)"
  by (force simp: successful_pairs_def)

text \<open>
  C2. After an aggregation pass the merged list is, entry for entry and in order, the
  list of the (server, operation) pairs that the successful connector calls returned,
  each under the name \<open>server_id_original_name\<close>: one entry per pair, none twice, none
  missing. This holds for \<open>get_all_aws_mcp_tools\<close> on every registry, and for
  \<open>get_mcp_tools_from_servers\<close> on every registry whose descriptors have a URL field.
\<close>

theorem catalog_completeness:
  "snd (get_all_aws_mcp_tools w servers)
     = Inr (map entry (successful_pairs (aws_catalog w) servers))
   \<and> (list_all (\<lambda>sc. has_url (snd sc)) servers \<longrightarrow>
        snd (get_mcp_tools_from_servers w servers)
          = Inr (map entry (successful_pairs (external_catalog w) servers)))"
  by (simp add: get_all_aws_mcp_tools_result get_mcp_tools_from_servers_result)

theorem catalog_completeness_witness:
  "distinct (map fst three_servers)
   \<and> list_all (\<lambda>sc. has_url (snd sc)) three_servers
   \<and> snd (get_all_aws_mcp_tools one_down three_servers)
       = Inr [sample_tool ''A_x'', sample_tool ''A_y'', sample_tool ''C_z'']
   \<and> snd (get_mcp_tools_from_servers one_down three_servers)
       = Inr [sample_tool ''A_x'', sample_tool ''A_y'', sample_tool ''C_z'']"
  using catalog_completeness [of one_down three_servers]
  by (simp add: successful_pairs_def aws_catalog_def external_catalog_def one_down_def
      three_servers_def has_url_def entry_def sample_tool_def auth_headers_def)

text \<open>
  C3. Discovery always completes with a list. Whatever the other servers do, the list
  holds every operation of every server whose connector call succeeds, under its
  namespaced name; a server whose call fails contributes nothing: \<open>connect_to_mcp_server\<close>
  returns the empty list for it, and the \<open>try\<close> block of \<open>get_mcp_tools_from_servers\<close>
  leaves \<open>all_tools\<close> as it was.
\<close>

theorem partial_failure_isolation:
  "(\<exists>r. snd (get_all_aws_mcp_tools w servers) = Inr r \<and>
        (\<forall>(s, cfg) \<in> set servers. \<forall>ts. aws_catalog w cfg = Some ts \<longrightarrow>
            (\<forall>t \<in> set ts. entry (s, t) \<in> set r)))
   \<and> (aws_catalog w c = None \<longrightarrow> snd (connect_to_mcp_server w n c) = Inr [])
   \<and> (list_all (\<lambda>sc. has_url (snd sc)) servers \<longrightarrow>
        (\<exists>r. snd (get_mcp_tools_from_servers w servers) = Inr r \<and>
          (\<forall>(s, cfg) \<in> set servers. \<forall>ts. external_catalog w cfg = Some ts \<longrightarrow>
              (\<forall>t \<in> set ts. entry (s, t) \<in> set r))))
   \<and> (py_getitem c ''url'' = Inr url \<longrightarrow> truthy url \<longrightarrow> external_catalog w c = None \<longrightarrow>
        fst (snd (get_mcp_tools_try w n c all_tools)) = all_tools)"
proof (intro conjI impI)
  show "\<exists>r. snd (get_all_aws_mcp_tools w servers) = Inr r \<and>
        (\<forall>(s, cfg) \<in> set servers. \<forall>ts. aws_catalog w cfg = Some ts \<longrightarrow>
            (\<forall>t \<in> set ts. entry (s, t) \<in> set r))"
    using successful_pairs_mem [of _ _ servers "aws_catalog w"]
    by (auto simp: get_all_aws_mcp_tools_result)
next
  assume "aws_catalog w c = None"
  then show "snd (connect_to_mcp_server w n c) = Inr []"
    by (simp add: connect_to_mcp_server_result)
next
  assume "list_all (\<lambda>sc. has_url (snd sc)) servers"
  then show "\<exists>r. snd (get_mcp_tools_from_servers w servers) = Inr r \<and>
          (\<forall>(s, cfg) \<in> set servers. \<forall>ts. external_catalog w cfg = Some ts \<longrightarrow>
              (\<forall>t \<in> set ts. entry (s, t) \<in> set r))"
    using successful_pairs_mem [of _ _ servers "external_catalog w"]
    by (auto simp: get_mcp_tools_from_servers_result)
next
  assume "py_getitem c ''url'' = Inr url" "truthy url" "external_catalog w c = None"
  then show "fst (snd (get_mcp_tools_try w n c all_tools)) = all_tools"
    by (simp add: get_mcp_tools_try_result)
qed

theorem partial_failure_isolation_witness:
  "aws_catalog one_down (PDict [(''url'', PStr ''b''), (''auth'', PNone)]) = None
   \<and> snd (connect_to_mcp_server one_down ''B'' (PDict [(''url'', PStr ''b''), (''auth'', PNone)]))
       = Inr []
   \<and> aws_catalog one_down (PDict [(''url'', PStr ''c''), (''auth'', PNone)])
       = Some [sample_tool ''z'']
   \<and> (\<exists>r. snd (get_all_aws_mcp_tools one_down three_servers) = Inr r
          \<and> sample_tool ''C_z'' \<in> set r)
   \<and> list_all (\<lambda>sc. has_url (snd sc)) three_servers
   \<and> external_catalog one_down (PDict [(''url'', PStr ''a''), (''auth'', PNone)])
       = Some [sample_tool ''x'', sample_tool ''y'']
   \<and> (\<exists>r. snd (get_mcp_tools_from_servers one_down three_servers) = Inr r
          \<and> sample_tool ''A_x'' \<in> set r \<and> sample_tool ''A_y'' \<in> set r)
   \<and> external_catalog one_down (PDict [(''url'', PStr ''b''), (''auth'', PNone)]) = None
   \<and> fst (snd (get_mcp_tools_try one_down ''B'' (PDict [(''url'', PStr ''b''), (''auth'', PNone)])
         [sample_tool ''A_x''])) = [sample_tool ''A_x'']"
proof -
  let ?a = "PDict [(''url'', PStr ''a''), (''auth'', PNone)]"
  let ?b = "PDict [(''url'', PStr ''b''), (''auth'', PNone)]"
  let ?c = "PDict [(''url'', PStr ''c''), (''auth'', PNone)]"
  note p = partial_failure_isolation [of one_down three_servers ?b "''B''" "PStr ''b''"
      "[sample_tool ''A_x'']"]
  have cb: "aws_catalog one_down ?b = None" "external_catalog one_down ?b = None"
    by (simp_all add: aws_catalog_def external_catalog_def one_down_def auth_headers_def)
  have cc: "aws_catalog one_down ?c = Some [sample_tool ''z'']"
    by (simp add: aws_catalog_def one_down_def)
  have ca: "external_catalog one_down ?a = Some [sample_tool ''x'', sample_tool ''y'']"
    by (simp add: external_catalog_def one_down_def auth_headers_def)
  have wf: "list_all (\<lambda>sc. has_url (snd sc)) three_servers"
    by (simp add: three_servers_def has_url_def)
  have ez: "entry (''C'', sample_tool ''z'') = sample_tool ''C_z''"
    "entry (''A'', sample_tool ''x'') = sample_tool ''A_x''"
    "entry (''A'', sample_tool ''y'') = sample_tool ''A_y''"
    by (simp_all add: entry_def sample_tool_def)
  from p obtain r where r: "snd (get_all_aws_mcp_tools one_down three_servers) = Inr r"
    "\<forall>(s, cfg) \<in> set three_servers. \<forall>ts. aws_catalog one_down cfg = Some ts \<longrightarrow>
        (\<forall>t \<in> set ts. entry (s, t) \<in> set r)"
    by blast
  from r(2) cc have 1: "sample_tool ''C_z'' \<in> set r"
    by (force simp: three_servers_def ez [symmetric])
  from p wf obtain r' where r': "snd (get_mcp_tools_from_servers one_down three_servers) = Inr r'"
    "\<forall>(s, cfg) \<in> set three_servers. \<forall>ts. external_catalog one_down cfg = Some ts \<longrightarrow>
        (\<forall>t \<in> set ts. entry (s, t) \<in> set r')"
    by blast
  from r'(2) ca have 2: "sample_tool ''A_x'' \<in> set r'" "sample_tool ''A_y'' \<in> set r'"
    by (force simp: three_servers_def ez [symmetric])+
  from p cb have 3: "snd (connect_to_mcp_server one_down ''B'' ?b) = Inr []"
    "fst (snd (get_mcp_tools_try one_down ''B'' ?b [sample_tool ''A_x''])) = [sample_tool ''A_x'']"
    by simp_all
  show ?thesis using cb cc ca wf r(1) 1 r'(1) 2 3 by simp
qed

text \<open>
  C6 fails: no registry is rejected. The servers \<open>aws\<close>, with the operation
  \<open>eks_list\<close>, and \<open>aws_eks\<close>, with the operation \<open>list\<close>, have distinct identifiers
  and give two pairs with the one composite name \<open>aws_eks_list\<close>; aggregation returns
  normally, with two entries of that name.
\<close>

theorem collision_not_rejected:
  "distinct (map fst colliding_servers)
   \<and> successful_pairs (aws_catalog colliding_world) colliding_servers
       = [(''aws'', sample_tool ''eks_list''), (''aws_eks'', sample_tool ''list'')]
   \<and> snd (get_all_aws_mcp_tools colliding_world colliding_servers)
       = Inr [sample_tool ''aws_eks_list'', sample_tool ''aws_eks_list'']"
  by (simp add: get_all_aws_mcp_tools_result successful_pairs_def aws_catalog_def
      colliding_world_def colliding_servers_def entry_def sample_tool_def)

text \<open>
  C6, amended. Aggregation validates nothing and never fails. For every registry it
  returns a list with one entry per pair of a successful connector call; when two
  pairs produce the same composite name, both entries are in the list, each at the
  position of its pair and under that same name: neither is dropped or overwritten.
\<close>

theorem collision_entries_kept:
  "\<exists>r. snd (get_all_aws_mcp_tools w servers) = Inr r
     \<and> length r = length (successful_pairs (aws_catalog w) servers)
     \<and> (\<forall>i < length r. \<forall>j < length r. i \<noteq> j \<longrightarrow>
           name (entry (successful_pairs (aws_catalog w) servers ! i))
             = name (entry (successful_pairs (aws_catalog w) servers ! j)) \<longrightarrow>
           r ! i = entry (successful_pairs (aws_catalog w) servers ! i)
           \<and> r ! j = entry (successful_pairs (aws_catalog w) servers ! j)
           \<and> name (r ! i) = name (r ! j))"
  by (simp add: get_all_aws_mcp_tools_result)

theorem collision_entries_kept_witness:
  "name (entry (successful_pairs (aws_catalog colliding_world) colliding_servers ! 0))
     = name (entry (successful_pairs (aws_catalog colliding_world) colliding_servers ! 1))
   \<and> (\<exists>r. snd (get_all_aws_mcp_tools colliding_world colliding_servers) = Inr r
         \<and> length r = 2
         \<and> r ! 0 = sample_tool ''aws_eks_list'' \<and> r ! 1 = sample_tool ''aws_eks_list'')"
proof -
  have ps: "successful_pairs (aws_catalog colliding_world) colliding_servers
       = [(''aws'', sample_tool ''eks_list''), (''aws_eks'', sample_tool ''list'')]"
    by (simp add: successful_pairs_def aws_catalog_def colliding_world_def colliding_servers_def)
  have e: "entry (''aws'', sample_tool ''eks_list'') = sample_tool ''aws_eks_list''"
    "entry (''aws_eks'', sample_tool ''list'') = sample_tool ''aws_eks_list''"
    by (simp_all add: entry_def sample_tool_def)
  let ?ps = "successful_pairs (aws_catalog colliding_world) colliding_servers"
  from collision_entries_kept [of colliding_world colliding_servers]
  obtain r where r: "snd (get_all_aws_mcp_tools colliding_world colliding_servers) = Inr r"
    "length r = length ?ps"
    "\<forall>i < length r. \<forall>j < length r. i \<noteq> j \<longrightarrow>
           name (entry (?ps ! i)) = name (entry (?ps ! j)) \<longrightarrow>
           r ! i = entry (?ps ! i) \<and> r ! j = entry (?ps ! j) \<and> name (r ! i) = name (r ! j)"
    by blast
  have l: "length r = 2" using r(2) by (simp add: ps)
  from r(3) [rule_format, of 0 1] l
  have "r ! 0 = sample_tool ''aws_eks_list'' \<and> r ! 1 = sample_tool ''aws_eks_list''"
    by (simp add: ps e)
  with r(1) l show ?thesis by (auto simp: ps e)
qed

subsection \<open>Where dispatch returns a string\<close>

lemma try_except_returns:
  assumes "\<And>e. \<exists>x. snd (h e) = Inr x"
  shows "\<exists>x. snd (try_except m h) = Inr x"
proof (cases m)
  case (Pair l r)
  show ?thesis
  proof (cases r)
    case (Inl e)
    with Pair assms [of e] show ?thesis
      by (cases "h e") (auto simp: try_except_def)
  next
    case (Inr x)
    with Pair show ?thesis by (simp add: try_except_def)
  qed
qed

lemma try_except_return_io: "\<exists>x. snd (try_except m (\<lambda>e. return_io (f e))) = Inr x"
  by (rule try_except_returns) (simp add: return_io_def)

lemma snd_return_io: "snd (return_io x) = Inr x"
  by (simp add: return_io_def)

lemma execute_aws_mcp_tool_returns:
  assumes "CHR ''_'' \<in> set tool_name"
  shows "\<exists>s. snd (execute_aws_mcp_tool w servers tool_name arguments) = Inr s"
  using py_split_segments [OF assms]
  by (auto simp: execute_aws_mcp_tool_def bind_io_lift_Inr Let_def snd_return_io
      intro!: try_except_return_io)

lemma execute_mcp_tool_returns:
  assumes "list_all (\<lambda>sc. has_url (snd sc)) servers"
  shows "\<exists>s. snd (execute_mcp_tool w servers tool_name arguments) = Inr s"
proof (cases "map_of servers (hd (py_split CHR ''_'' tool_name))")
  case None
  then show ?thesis
    by (simp add: execute_mcp_tool_def py_split_hd bind_io_lift_Inr Let_def return_io_def)
next
  case (Some cfg)
  then have "(hd (py_split CHR ''_'' tool_name), cfg) \<in> set servers" by (rule map_of_SomeD)
  with assms have "has_url cfg" by (auto simp: list_all_iff)
  then obtain url where "py_getitem cfg ''url'' = Inr url"
    by (auto simp: has_url_def split: sum.splits)
  with Some show ?thesis
    by (auto simp: execute_mcp_tool_def py_split_hd bind_io_lift_Inr Let_def snd_return_io
        intro!: try_except_return_io)
qed

lemma execute_tool_returns:
  assumes "py_getitem (config self) ''gateway_url'' = Inr url"
    and "py_getitem (config self) ''access_token'' = Inr tok"
  shows "\<exists>s. snd (execute_tool w self tool_name kwargs) = Inr s"
  using assms py_getitem_truthy [OF assms(1)]
  by (simp add: execute_tool_def bind_io_lift_Inr)
    (rule try_except_returns, simp add: io_defs Let_def)

subsection \<open>Removing the proxy marker\<close>

text \<open>
  For a name that carries \<open>_proxy\<close> at its end and nowhere before, removing every
  occurrence and stripping the suffix give the same tool name.
\<close>

lemma take_append_short: "n \<le> length xs \<Longrightarrow> take n (xs @ ys) = take n xs"
  by simp

lemma py_replace_suffix_only:
  "\<not> py_in ''_proxy'' (base @ ''_prox'') \<Longrightarrow>
   py_replace ''_proxy'' [] (base @ ''_proxy'') = base"
proof (induction base)
  case Nil
  show ?case by (simp add: py_replace.simps startswith_def)
next
  case (Cons c cs)
  from Cons.prems have n: "\<not> startswith ((c # cs) @ ''_prox'') ''_proxy''"
    and r: "\<not> py_in ''_proxy'' (cs @ ''_prox'')"
    by simp_all
  have len: "length ''_proxy'' = 6" by simp
  have "6 \<le> length ((c # cs) @ ''_prox'')" by simp
  then have "take 6 (((c # cs) @ ''_prox'') @ ''y'') = take 6 ((c # cs) @ ''_prox'')"
    by (rule take_append_short)
  with n have "\<not> startswith (((c # cs) @ ''_prox'') @ ''y'') ''_proxy''"
    unfolding startswith_def len by simp
  moreover have "((c # cs) @ ''_prox'') @ ''y'' = (c # cs) @ ''_proxy''" by simp
  ultimately have "\<not> startswith ((c # cs) @ ''_proxy'') ''_proxy''" by simp
  then show ?case
    using Cons.IH [OF r] by (subst py_replace.simps) simp
qed

lemma strip_suffix_proxy: "strip_suffix ''_proxy'' (base @ ''_proxy'') = base"
  by (simp add: strip_suffix_def)

end
